theory Spec2Isabelle
  imports Complex_Main "HOL-Library.Sublist"
begin

section \<open>Unity Catalog table profiling (proxy\_profiling.py)\<close>

text \<open>
  A shallow embedding of \<^verbatim>\<open>UnityCatalogProxyProfilingMixin\<close>. The Databricks
  workspace client, \<^verbatim>\<open>time.sleep\<close> and the report object are effects of the
  Python code; here the remote workspace is a state of type \<open>'w\<close> threaded through
  every client call, the report is a record that is returned updated, the sleeps are
  collected in a list, and a raised exception is the \<open>Inl\<close> of a sum.
\<close>

subsection \<open>Data model\<close>

datatype StatementState = PENDING | RUNNING | SUCCEEDED | FAILED | CANCELED | CLOSED

record ServiceError =
  message :: string
  error_code :: string

record StatementStatus =
  state :: StatementState
  error :: ServiceError

text \<open>\<^verbatim>\<open>ExecuteStatementResponse\<close> and \<^verbatim>\<open>GetStatementResponse\<close>: the code
  reads \<^verbatim>\<open>statement_id\<close> and \<^verbatim>\<open>status\<close> only.\<close>

record StatementResponse =
  statement_id :: string
  status :: StatementStatus

text \<open>\<^verbatim>\<open>DatabricksError(message, error_code=..., status=..., context=...)\<close>;
  \<^verbatim>\<open>str(e)\<close> is the message.\<close>

record DatabricksError =
  err_msg :: string
  err_code :: string
  err_status :: StatementState
  err_context :: string

text \<open>What a call can raise: the \<^verbatim>\<open>DatabricksError\<close> that \<^verbatim>\<open>get_table_stats\<close>
  catches, or any other Python exception (named by a string), which no handler of this
  module catches.\<close>

datatype exn = Databricks DatabricksError | OtherException string

text \<open>\<^verbatim>\<open>TableReference\<close> is declared in \<^verbatim>\<open>proxy_types\<close>. The code reads the three
  name parts, the derived \<^verbatim>\<open>qualified_table_name\<close> and \<^verbatim>\<open>str(ref)\<close>; the two
  derived strings are kept as fields.\<close>

record TableReference =
  catalog :: string
  schema :: string
  table :: string
  qualified_table_name :: string
  ref_str :: string

text \<open>\<^verbatim>\<open>TableInfo\<close>: its name, the names of its declared columns and the property
  bag.\<close>

record TableInfo =
  info_name :: string
  columns :: "string list"
  properties :: "string \<rightharpoonup> string"

record ColumnProfile =
  name :: string
  null_count :: "int option"
  distinct_count :: "int option"
  min_value :: "string option"
  max_value :: "string option"
  avg_len :: "string option"
  max_len :: "string option"
  version :: "string option"

record TableProfile =
  num_rows :: "int option"
  total_size :: "int option"
  num_columns :: nat
  column_profiles :: "ColumnProfile list"

text \<open>The part of \<^verbatim>\<open>UnityCatalogReport\<close> that this module writes.\<close>

record report =
  profile_table_timeouts :: "string list"
  profile_table_errors :: "string \<rightharpoonup> (string \<times> string) list"
  num_profile_failed_unsupported_column_type :: int
  num_profile_failed_int_casts :: int

text \<open>Everything the mixin takes from outside: the three client calls it makes (each
  may raise, and each may change the remote state), the warehouse id, Python's
  \<^verbatim>\<open>int(str)\<close> (\<open>None\<close> stands for \<^verbatim>\<open>ValueError\<close>), and the capacity and
  overflow behaviour of the report's bounded lists.\<close>

record 'w env =
  execute_statement ::
    "string \<Rightarrow> string \<Rightarrow> string \<Rightarrow> string \<Rightarrow> 'w \<Rightarrow> (exn + StatementResponse) \<times> 'w"
  get_statement :: "string \<Rightarrow> 'w \<Rightarrow> (exn + StatementResponse) \<times> 'w"
  tables_get :: "string \<Rightarrow> 'w \<Rightarrow> (exn + TableInfo) \<times> 'w"
  warehouse_id :: string
  py_int :: "string \<Rightarrow> int option"
  lossy_capacity :: nat
  timeouts_overflow :: "string list \<Rightarrow> string \<Rightarrow> string list"
  errors_overflow :: "(string \<times> string) list \<Rightarrow> string \<times> string \<Rightarrow> (string \<times> string) list"

text \<open>Modelled from the spec: \<^verbatim>\<open>LossyList\<close> (\<^verbatim>\<open>datahub.utilities.lossy_collections\<close>)
  is not among the sources. The spec describes the report's collections as bounded:
  below the capacity an appended entry is kept, at the capacity entries are dropped.
  Which entry goes is left to the parameter \<open>ovf\<close>.\<close>

definition LossyList_append :: "nat \<Rightarrow> ('a list \<Rightarrow> 'a \<Rightarrow> 'a list) \<Rightarrow> 'a list \<Rightarrow> 'a \<Rightarrow> 'a list" where
  "LossyList_append cap ovf xs x = (if length xs < cap then xs @ [x] else ovf xs x)"

subsection \<open>Python string and integer helpers\<close>

text \<open>\<^verbatim>\<open>s.find(c)\<close> for a one-character needle: the first index, or \<open>-1\<close>.\<close>

fun str_find :: "string \<Rightarrow> char \<Rightarrow> int" where
  "str_find [] c = -1"
| "str_find (x # xs) c =
     (if x = c then 0 else (let i = str_find xs c in if i < 0 then -1 else i + 1))"

text \<open>\<^verbatim>\<open>a or b\<close> on integers: \<open>a\<close> unless it is zero.\<close>

definition py_or :: "int \<Rightarrow> int \<Rightarrow> int" where
  "py_or a b = (if a \<noteq> 0 then a else b)"

text \<open>\<^verbatim>\<open>s[:i]\<close>; a negative \<open>i\<close> counts from the end.\<close>

definition slice_to :: "string \<Rightarrow> int \<Rightarrow> string" where
  "slice_to s i = (if i < 0 then take (nat (int (length s) + i)) s else take (nat i) s)"

definition backtick :: char where
  "backtick = CHR 0x60"

definition single_quote :: char where
  "single_quote = CHR 0x27"

definition unsupported_column_token :: string where
  "unsupported_column_token = ''[UNSUPPORTED_FEATURE.ANALYZE_UNSUPPORTED_COLUMN_TYPE]''"

subsection \<open>Statement submission and polling\<close>

definition raise_if_error :: "StatementResponse \<Rightarrow> string \<Rightarrow> exn + unit" where
  "raise_if_error response key =
     (if state (status response) \<in> set [FAILED, CANCELED, CLOSED]
      then Inl (Databricks \<lparr>err_msg = message (error (status response)),
                            err_code = error_code (error (status response)),
                            err_status = state (status response),
                            err_context = key\<rparr>)
      else Inr ())"

definition analyze_table ::
  "'w env \<Rightarrow> TableReference \<Rightarrow> bool \<Rightarrow> 'w \<Rightarrow> (exn + StatementResponse) \<times> 'w" where
  "analyze_table c ref include_columns w =
     (let statement = ''ANALYZE TABLE '' @ schema ref @ ''.'' @ table ref @ '' COMPUTE STATISTICS'';
          statement = (if include_columns then statement @ '' FOR ALL COLUMNS'' else statement)
      in case execute_statement c statement (catalog ref) ''0s'' (warehouse_id c) w of
           (Inl e, w') \<Rightarrow> (Inl e, w')
         | (Inr response, w') \<Rightarrow>
             (case raise_if_error response ''analyze-table'' of
                Inl e \<Rightarrow> (Inl e, w')
              | Inr _ \<Rightarrow> (Inr response, w')))"

text \<open>The \<^verbatim>\<open>while\<close> loop of \<^verbatim>\<open>_check_analyze_table_statement_status\<close>, from any
  values of its variables. \<open>slept\<close> collects the arguments of \<^verbatim>\<open>time.sleep\<close>. The
  loop need not end for a backoff that is not positive, so it is a partial function:
  \<open>None\<close> is a loop that runs forever.\<close>

partial_function (option) poll_loop ::
  "'w env \<Rightarrow> string \<Rightarrow> int \<Rightarrow> int \<Rightarrow> int \<Rightarrow> StatementStatus \<Rightarrow> int list \<Rightarrow> 'w
     \<Rightarrow> ((exn + StatementStatus) \<times> int list \<times> 'w) option" where
  "poll_loop c sid max_wait_secs backoff_sec total_wait_time st slept w =
     (if total_wait_time < max_wait_secs \<and> state st \<noteq> SUCCEEDED then
        (case get_statement c sid w of
           (Inl e, w') \<Rightarrow>
             Some (Inl e, slept @ [min backoff_sec (max_wait_secs - total_wait_time)], w')
         | (Inr response, w') \<Rightarrow>
             (case raise_if_error response ''get-statement'' of
                Inl e \<Rightarrow>
                  Some (Inl e, slept @ [min backoff_sec (max_wait_secs - total_wait_time)], w')
              | Inr _ \<Rightarrow>
                  poll_loop c sid max_wait_secs (backoff_sec * 2) (total_wait_time + backoff_sec)
                    (status response)
                    (slept @ [min backoff_sec (max_wait_secs - total_wait_time)]) w'))
      else Some (Inr st, slept, w))"

declare poll_loop.simps [code]

definition check_analyze_table_statement_status ::
  "'w env \<Rightarrow> StatementResponse \<Rightarrow> int \<Rightarrow> 'w \<Rightarrow> ((exn + bool) \<times> int list \<times> 'w) option" where
  "check_analyze_table_statement_status c execute_response max_wait_secs w =
     (case poll_loop c (statement_id execute_response) max_wait_secs 1 0
             (status execute_response) [] w of
        None \<Rightarrow> None
      | Some (Inl e, slept, w') \<Rightarrow> Some (Inl e, slept, w')
      | Some (Inr st, slept, w') \<Rightarrow> Some (Inr (state st = SUCCEEDED), slept, w'))"

subsection \<open>Profile extraction\<close>

definition get_int :: "'w env \<Rightarrow> TableInfo \<Rightarrow> string \<Rightarrow> report \<Rightarrow> int option \<times> report" where
  "get_int c table_info field rep =
     (case properties table_info field of
        Some v \<Rightarrow>
          (case py_int c v of
             Some n \<Rightarrow> (Some n, rep)
           | None \<Rightarrow>
               (None, rep\<lparr>num_profile_failed_int_casts := num_profile_failed_int_casts rep + 1\<rparr>))
      | None \<Rightarrow> (None, rep))"

definition create_column_profile ::
  "'w env \<Rightarrow> string \<Rightarrow> TableInfo \<Rightarrow> report \<Rightarrow> ColumnProfile \<times> report" where
  "create_column_profile c column table_info rep =
     (case get_int c table_info (''spark.sql.statistics.colStats.'' @ column @ ''.nullCount'') rep of
        (nc, rep1) \<Rightarrow>
     (case get_int c table_info (''spark.sql.statistics.colStats.'' @ column @ ''.distinctCount'') rep1 of
        (dc, rep2) \<Rightarrow>
       (\<lparr>name = column,
         null_count = nc,
         distinct_count = dc,
         min_value = properties table_info (''spark.sql.statistics.colStats.'' @ column @ ''.min''),
         max_value = properties table_info (''spark.sql.statistics.colStats.'' @ column @ ''.max''),
         avg_len = properties table_info (''spark.sql.statistics.colStats.'' @ column @ ''.avgLen''),
         max_len = properties table_info (''spark.sql.statistics.colStats.'' @ column @ ''.maxLen''),
         version = properties table_info (''spark.sql.statistics.colStats.'' @ column @ ''.version'')\<rparr>,
        rep2)))"

text \<open>The list comprehension over the column names, left to right.\<close>

fun create_column_profiles ::
  "'w env \<Rightarrow> string list \<Rightarrow> TableInfo \<Rightarrow> report \<Rightarrow> ColumnProfile list \<times> report" where
  "create_column_profiles c [] table_info rep = ([], rep)"
| "create_column_profiles c (column # rest) table_info rep =
     (case create_column_profile c column table_info rep of
        (p, rep1) \<Rightarrow>
          (case create_column_profiles c rest table_info rep1 of
             (ps, rep2) \<Rightarrow> (p # ps, rep2)))"

definition create_table_profile ::
  "'w env \<Rightarrow> TableInfo \<Rightarrow> bool \<Rightarrow> report \<Rightarrow> TableProfile \<times> report" where
  "create_table_profile c table_info include_columns rep =
     (let columns_names = columns table_info in
      case get_int c table_info ''spark.sql.statistics.numRows'' rep of
        (nr, rep1) \<Rightarrow>
     (case get_int c table_info ''spark.sql.statistics.totalSize'' rep1 of
        (ts, rep2) \<Rightarrow>
     (case (if include_columns then create_column_profiles c columns_names table_info rep2
            else ([], rep2)) of
        (cps, rep3) \<Rightarrow>
       (\<lparr>num_rows = nr,
         total_size = ts,
         num_columns = length columns_names,
         column_profiles = cps\<rparr>,
        rep3))))"

definition get_table_profile ::
  "'w env \<Rightarrow> TableReference \<Rightarrow> bool \<Rightarrow> report \<Rightarrow> 'w \<Rightarrow> (exn + TableProfile) \<times> report \<times> 'w" where
  "get_table_profile c ref include_columns rep w =
     (case tables_get c (qualified_table_name ref) w of
        (Inl e, w') \<Rightarrow> (Inl e, rep, w')
      | (Inr table_info, w') \<Rightarrow>
          (case create_table_profile c table_info include_columns rep of
             (p, rep') \<Rightarrow> (Inr p, rep', w')))"

subsection \<open>The orchestrator\<close>

definition should_retry_unsupported_column ::
  "TableReference \<Rightarrow> DatabricksError \<Rightarrow> report \<Rightarrow> bool \<times> report" where
  "should_retry_unsupported_column ref e rep =
     (if sublist unsupported_column_token (err_msg e)
      then (True, rep\<lparr>num_profile_failed_unsupported_column_type :=
                         num_profile_failed_unsupported_column_type rep + 1\<rparr>)
      else (False, rep))"

text \<open>The grouping key computed in the handler: \<^verbatim>\<open>msg[:idx]\<close>.\<close>

definition base_msg :: "string \<Rightarrow> string" where
  "base_msg msg =
     (let idx = py_or (str_find msg backtick + 1)
                  (py_or (str_find msg single_quote + 1) (int (length msg)))
      in slice_to msg idx)"

text \<open>\<^verbatim>\<open>profile_table_errors.setdefault(base_msg, LossyList()).append((str(ref), msg))\<close>\<close>

definition record_error :: "'w env \<Rightarrow> TableReference \<Rightarrow> string \<Rightarrow> report \<Rightarrow> report" where
  "record_error c ref msg rep =
     (let samples = (case profile_table_errors rep (base_msg msg) of
                       None \<Rightarrow> []
                     | Some l \<Rightarrow> l)
      in rep\<lparr>profile_table_errors :=
               (profile_table_errors rep)(base_msg msg \<mapsto>
                  LossyList_append (lossy_capacity c) (errors_overflow c) samples (ref_str ref, msg))\<rparr>)"

text \<open>The body of the \<^verbatim>\<open>try\<close> block. \<open>Inl\<close> is an exception leaving the block; the
  report and the remote state are returned as they are at that moment.\<close>

definition get_table_stats_try ::
  "'w env \<Rightarrow> TableReference \<Rightarrow> int \<Rightarrow> bool \<Rightarrow> bool \<Rightarrow> report \<Rightarrow> 'w
     \<Rightarrow> ((exn + TableProfile option) \<times> report \<times> 'w) option" where
  "get_table_stats_try c ref max_wait_secs call_analyze include_columns rep w =
     (if call_analyze then
        (case analyze_table c ref include_columns w of
           (Inl e, w1) \<Rightarrow> Some (Inl e, rep, w1)
         | (Inr response, w1) \<Rightarrow>
             (case check_analyze_table_statement_status c response max_wait_secs w1 of
                None \<Rightarrow> None
              | Some (Inl e, slept, w2) \<Rightarrow> Some (Inl e, rep, w2)
              | Some (Inr success, slept, w2) \<Rightarrow>
                  (if \<not> success then
                     Some (Inr None,
                           rep\<lparr>profile_table_timeouts :=
                                 LossyList_append (lossy_capacity c) (timeouts_overflow c)
                                   (profile_table_timeouts rep) (ref_str ref)\<rparr>,
                           w2)
                   else
                     (case get_table_profile c ref include_columns rep w2 of
                        (Inl e, rep', w3) \<Rightarrow> Some (Inl e, rep', w3)
                      | (Inr p, rep', w3) \<Rightarrow> Some (Inr (Some p), rep', w3)))))
      else
        (case get_table_profile c ref include_columns rep w of
           (Inl e, rep', w3) \<Rightarrow> Some (Inl e, rep', w3)
         | (Inr p, rep', w3) \<Rightarrow> Some (Inr (Some p), rep', w3)))"

text \<open>\<^verbatim>\<open>get_table_stats\<close>: the \<^verbatim>\<open>try\<close> block and its one handler. An exception
  that is not a \<^verbatim>\<open>DatabricksError\<close> passes through. The retry guard is Python's
  \<^verbatim>\<open>and\<close>: \<^verbatim>\<open>_should_retry_unsupported_column\<close> runs only when both flags are
  true. The call inside the handler is not covered by the \<^verbatim>\<open>try\<close>: whatever it
  returns or raises is the result.\<close>

function get_table_stats ::
  "'w env \<Rightarrow> TableReference \<Rightarrow> int \<Rightarrow> bool \<Rightarrow> bool \<Rightarrow> report \<Rightarrow> 'w
     \<Rightarrow> ((exn + TableProfile option) \<times> report \<times> 'w) option" where
  "get_table_stats c ref max_wait_secs call_analyze include_columns rep w =
     (case get_table_stats_try c ref max_wait_secs call_analyze include_columns rep w of
        None \<Rightarrow> None
      | Some (Inr r, rep1, w1) \<Rightarrow> Some (Inr r, rep1, w1)
      | Some (Inl (OtherException x), rep1, w1) \<Rightarrow> Some (Inl (OtherException x), rep1, w1)
      | Some (Inl (Databricks e), rep1, w1) \<Rightarrow>
          (let msg = err_msg e;
               rep2 = record_error c ref msg rep1
           in if call_analyze \<and> include_columns then
                (case should_retry_unsupported_column ref e rep2 of
                   (retry, rep3) \<Rightarrow>
                     (if retry then get_table_stats c ref max_wait_secs call_analyze False rep3 w1
                      else Some (Inr None, rep3, w1)))
              else Some (Inr None, rep2, w1)))"
  by pat_completeness auto
termination
  by (relation "measure (\<lambda>(c, ref, m, ca, ic, rep, w). if ic then 1 else 0)") auto

subsection \<open>Specification-side definitions\<close>

text \<open>The grouping key in the words of the specification: the message up to and
  including the first backtick; failing that, up to and including the first single
  quote; or else the whole message.\<close>

definition grouping_key_spec :: "string \<Rightarrow> string" where
  "grouping_key_spec msg =
     (if backtick \<in> set msg then takeWhile (\<lambda>x. x \<noteq> backtick) msg @ [backtick]
      else if single_quote \<in> set msg then takeWhile (\<lambda>x. x \<noteq> single_quote) msg @ [single_quote]
      else msg)"

text \<open>The backoff schedule in the words of the specification: sleep number \<open>k\<close>
  (from 0) is \<open>2 ^ k\<close>, capped by what is left of the budget after the \<open>k\<close>
  scheduled backoffs before it; and it happens only while that scheduled total is below
  the budget.\<close>

definition backoff_schedule :: "int \<Rightarrow> int list \<Rightarrow> bool" where
  "backoff_schedule max_wait_secs slept =
     (\<forall>k < length slept.
        slept ! k = min (2 ^ k) (max_wait_secs - (\<Sum>j<k. 2 ^ j)) \<and>
        (\<Sum>j<k. 2 ^ j) < max_wait_secs)"

text \<open>The status lookups of one polling run, in the words of the specification:
  \<open>nth_lookup c sid w k\<close> is what lookup number \<open>k\<close> (from 0) answers when the
  run starts in remote state \<open>w\<close>, each lookup leaving the remote state to the next.
  Lookup \<open>k\<close> is within the wait budget when the \<open>k\<close> backoffs scheduled before
  it sum to less than \<open>max_wait_secs\<close>.\<close>

fun nth_lookup :: "'w env \<Rightarrow> string \<Rightarrow> 'w \<Rightarrow> nat \<Rightarrow> (exn + StatementResponse) \<times> 'w" where
  "nth_lookup c sid w 0 = get_statement c sid w"
| "nth_lookup c sid w (Suc k) = nth_lookup c sid (snd (get_statement c sid w)) k"

text \<open>A key whose value is present but not integer-parseable, and the numeric keys
  the extractor reads, in reading order.\<close>

definition unparseable :: "'w env \<Rightarrow> TableInfo \<Rightarrow> string \<Rightarrow> bool" where
  "unparseable c table_info field =
     (case properties table_info field of
        None \<Rightarrow> False
      | Some v \<Rightarrow> py_int c v = None)"

definition numeric_keys :: "TableInfo \<Rightarrow> bool \<Rightarrow> string list" where
  "numeric_keys table_info include_columns =
     [''spark.sql.statistics.numRows'', ''spark.sql.statistics.totalSize''] @
     (if include_columns
      then concat (map (\<lambda>column.
             [''spark.sql.statistics.colStats.'' @ column @ ''.nullCount'',
              ''spark.sql.statistics.colStats.'' @ column @ ''.distinctCount''])
             (columns table_info))
      else [])"

subsection \<open>A sample workspace\<close>

text \<open>A stand-in for \<^verbatim>\<open>int(str)\<close> on plain decimal literals (ASCII digits only),
  enough for the examples below.\<close>

definition ascii_digits_int :: "string \<Rightarrow> int option" where
  "ascii_digits_int s =
     (if s \<noteq> [] \<and> list_all (\<lambda>x. 48 \<le> (of_char x :: nat) \<and> (of_char x :: nat) \<le> 57) s
      then Some (foldl (\<lambda>a x. 10 * a + (int (of_char x) - 48)) 0 s)
      else None)"

definition sample_ref :: TableReference where
  "sample_ref = \<lparr>catalog = ''main'', schema = ''sales'', table = ''orders'',
                  qualified_table_name = ''main.sales.orders'',
                  ref_str = ''metastore.main.sales.orders''\<rparr>"

definition sample_table :: TableInfo where
  "sample_table =
     \<lparr>info_name = ''orders'',
      columns = [''id'', ''tags''],
      properties = map_of
        [(''spark.sql.statistics.numRows'', ''100''),
         (''spark.sql.statistics.totalSize'', ''not-a-number''),
         (''spark.sql.statistics.colStats.id.nullCount'', ''0''),
         (''spark.sql.statistics.colStats.id.distinctCount'', ''97''),
         (''spark.sql.statistics.colStats.id.min'', ''1''),
         (''spark.sql.statistics.colStats.id.max'', ''100'')]\<rparr>"

definition unsupported_msg :: string where
  "unsupported_msg = ''Column '' @ [backtick] @ ''tags'' @ [backtick] @
     '' has type MAP which is unsupported [UNSUPPORTED_FEATURE.ANALYZE_UNSUPPORTED_COLUMN_TYPE]''"

definition status_of :: "StatementState \<Rightarrow> StatementStatus" where
  "status_of s = \<lparr>state = s, error = \<lparr>message = unsupported_msg, error_code = ''BAD_REQUEST''\<rparr>\<rparr>"

text \<open>The remote state is the number of status lookups since the last submission. A
  statement \<^verbatim>\<open>FOR ALL COLUMNS\<close> fails at once with the unsupported-column message;
  any other statement is pending, running for two lookups, and succeeded from the third
  on.\<close>

definition sample_env :: "nat env" where
  "sample_env =
     \<lparr>execute_statement = (\<lambda>statement cat wait_timeout wh w.
        (Inr \<lparr>statement_id = ''stmt'',
              status = status_of (if sublist ''FOR ALL COLUMNS'' statement then FAILED else PENDING)\<rparr>,
         0)),
      get_statement = (\<lambda>sid w.
        (Inr \<lparr>statement_id = sid,
              status = status_of (if 2 \<le> w then SUCCEEDED else RUNNING)\<rparr>,
         Suc w)),
      tables_get = (\<lambda>qualified_name w. (Inr sample_table, w)),
      warehouse_id = ''warehouse'',
      py_int = ascii_digits_int,
      lossy_capacity = 10,
      timeouts_overflow = (\<lambda>xs x. xs),
      errors_overflow = (\<lambda>xs x. xs)\<rparr>"

text \<open>The same workspace with a statement that never leaves \<^verbatim>\<open>RUNNING\<close>.\<close>

definition stuck_env :: "nat env" where
  "stuck_env =
     sample_env\<lparr>get_statement := (\<lambda>sid w.
       (Inr \<lparr>statement_id = sid, status = status_of RUNNING\<rparr>, Suc w))\<rparr>"

definition empty_report :: report where
  "empty_report = \<lparr>profile_table_timeouts = [], profile_table_errors = Map.empty,
                    num_profile_failed_unsupported_column_type = 0,
                    num_profile_failed_int_casts = 0\<rparr>"

text \<open>What the sample workspace answers: the response to a submission without
  columns, the error raised for one with columns, and the profile without columns.\<close>

definition submitted :: StatementResponse where
  "submitted = \<lparr>statement_id = ''stmt'', status = status_of PENDING\<rparr>"

definition sample_error :: DatabricksError where
  "sample_error = \<lparr>err_msg = unsupported_msg, err_code = ''BAD_REQUEST'',
                    err_status = FAILED, err_context = ''analyze-table''\<rparr>"

definition sample_profile :: TableProfile where
  "sample_profile = \<lparr>num_rows = Some 100, total_size = None, num_columns = 2,
                      column_profiles = []\<rparr>"

text \<open>A workspace whose table lookup raises the unsupported-column error.\<close>

definition broken_env :: "nat env" where
  "broken_env = sample_env\<lparr>tables_get := (\<lambda>qualified_name w. (Inl (Databricks sample_error), w))\<rparr>"

declare get_table_stats.simps [simp del]

section \<open>The poller\<close>

subsection \<open>Unfolding the loop once\<close>

lemma poll_loop_stop:
  "\<not> (t < m \<and> state st \<noteq> SUCCEEDED) \<Longrightarrow> poll_loop c sid m b t st sl w = Some (Inr st, sl, w)"
  by (subst poll_loop.simps) auto

lemma poll_loop_raise_client:
  "t < m \<Longrightarrow> state st \<noteq> SUCCEEDED \<Longrightarrow> get_statement c sid w = (Inl e, w')
   \<Longrightarrow> poll_loop c sid m b t st sl w = Some (Inl e, sl @ [min b (m - t)], w')"
  by (subst poll_loop.simps) simp

lemma poll_loop_raise_status:
  "t < m \<Longrightarrow> state st \<noteq> SUCCEEDED \<Longrightarrow> get_statement c sid w = (Inr r, w')
   \<Longrightarrow> raise_if_error r ''get-statement'' = Inl e
   \<Longrightarrow> poll_loop c sid m b t st sl w = Some (Inl e, sl @ [min b (m - t)], w')"
  by (subst poll_loop.simps) simp

lemma poll_loop_step:
  "t < m \<Longrightarrow> state st \<noteq> SUCCEEDED \<Longrightarrow> get_statement c sid w = (Inr r, w')
   \<Longrightarrow> raise_if_error r ''get-statement'' = Inr u
   \<Longrightarrow> poll_loop c sid m b t st sl w =
         poll_loop c sid m (b * 2) (t + b) (status r) (sl @ [min b (m - t)]) w'"
  by (subst poll_loop.simps) simp

lemma poll_loop_cases:
  obtains (c_stop) "\<not> (t < m \<and> state st \<noteq> SUCCEEDED)"
  | (c_raise_client) e w' where "t < m" "state st \<noteq> SUCCEEDED" "get_statement c sid w = (Inl e, w')"
  | (c_raise_status) r e w' where "t < m" "state st \<noteq> SUCCEEDED" "get_statement c sid w = (Inr r, w')"
      "raise_if_error r ''get-statement'' = Inl e"
  | (c_step) r w' where "t < m" "state st \<noteq> SUCCEEDED" "get_statement c sid w = (Inr r, w')"
      "raise_if_error r ''get-statement'' = Inr ()"
proof (cases "t < m \<and> state st \<noteq> SUCCEEDED")
  case False then show ?thesis by (rule c_stop)
next
  case True
  obtain x w' where g: "get_statement c sid w = (x, w')" by (cases "get_statement c sid w")
  show ?thesis
  proof (cases x)
    case (Inl e) with True g show ?thesis using c_raise_client by simp
  next
    case (Inr r)
    show ?thesis
    proof (cases "raise_if_error r ''get-statement''")
      case (Inl e) with True g Inr show ?thesis using c_raise_status by simp
    next
      case (Inr u) with True g \<open>x = Inr r\<close> show ?thesis using c_step by simp
    qed
  qed
qed



lemma poll_loop_induct [consumes 1, case_names stop raise_client raise_status step]:
  fixes c :: "'w env" and P :: "int \<Rightarrow> int \<Rightarrow> StatementStatus \<Rightarrow> int list \<Rightarrow> 'w \<Rightarrow> bool"
  assumes pos: "0 < b"
    and stop: "\<And>b t st sl w. 0 < b \<Longrightarrow> \<not> (t < (m::int) \<and> state st \<noteq> SUCCEEDED) \<Longrightarrow> P b t st sl w"
    and raise_client: "\<And>b t st sl w e w'. 0 < b \<Longrightarrow> t < m \<Longrightarrow> state st \<noteq> SUCCEEDED \<Longrightarrow>
          get_statement c sid w = (Inl e, w') \<Longrightarrow> P b t st sl w"
    and raise_status: "\<And>b t st sl w r e w'. 0 < b \<Longrightarrow> t < m \<Longrightarrow> state st \<noteq> SUCCEEDED \<Longrightarrow>
          get_statement c sid w = (Inr r, w') \<Longrightarrow> raise_if_error r ''get-statement'' = Inl e \<Longrightarrow>
          P b t st sl w"
    and step: "\<And>b t st sl w r w'. 0 < b \<Longrightarrow> t < m \<Longrightarrow> state st \<noteq> SUCCEEDED \<Longrightarrow>
          get_statement c sid w = (Inr r, w') \<Longrightarrow> raise_if_error r ''get-statement'' = Inr () \<Longrightarrow>
          P (b * 2) (t + b) (status r) (sl @ [min b (m - t)]) w' \<Longrightarrow> P b t st sl w"
  shows "P (b::int) (t::int) st sl w"
  using pos
proof (induction t arbitrary: b st sl w rule: measure_induct_rule[where f = "\<lambda>t. nat (m - t)"])
  case (less t b st sl w)
  show ?case
  proof (cases rule: poll_loop_cases[where t=t and m=m and st=st and c=c and sid=sid and w=w])
    case c_stop
    show ?thesis by (rule stop[OF less.prems c_stop])
  next
    case (c_raise_client e w')
    show ?thesis by (rule raise_client[OF less.prems c_raise_client])
  next
    case (c_raise_status r e w')
    show ?thesis by (rule raise_status[OF less.prems c_raise_status])
  next
    case (c_step r w')
    have "nat (m - (t + b)) < nat (m - t)" using c_step(1) less.prems by simp
    moreover have "0 < b * 2" using less.prems by simp
    ultimately have "P (b * 2) (t + b) (status r) (sl @ [min b (m - t)]) w'"
      by (rule less.IH)
    then show ?thesis by (rule step[OF less.prems c_step])
  qed
qed


lemma sum_pow2_int: "(\<Sum>j<k. (2::int) ^ j) = 2 ^ k - 1"
  by (induction k) simp_all

lemma backoff_schedule_Nil: "backoff_schedule m []"
  by (simp add: backoff_schedule_def)

lemma backoff_schedule_snoc:
  assumes "backoff_schedule m sl" "2 ^ length sl - 1 < m"
  shows "backoff_schedule m (sl @ [min (2 ^ length sl) (m - (2 ^ length sl - 1))])"
  using assms by (auto simp: backoff_schedule_def sum_pow2_int nth_append less_Suc_eq)

lemma poll_loop_backoff:
  assumes "0 < b"
  shows "b = 2 ^ length sl \<Longrightarrow> t = 2 ^ length sl - 1 \<Longrightarrow> backoff_schedule m sl \<Longrightarrow>
         \<exists>r sl' w'. poll_loop c sid m b t st sl w = Some (r, sl', w') \<and> backoff_schedule m sl'"
  using assms
proof (induction b t st sl w rule: poll_loop_induct[where m=m and c=c and sid=sid])
  case (stop b t st sl w)
  then show ?case by (simp add: poll_loop_stop)
next
  case (raise_client b t st sl w e w')
  then show ?case using backoff_schedule_snoc[of m sl] by (simp add: poll_loop_raise_client)
next
  case (raise_status b t st sl w r e w')
  then show ?case using backoff_schedule_snoc[of m sl] by (simp add: poll_loop_raise_status)
next
  case (step b t st sl w r w')
  have "backoff_schedule m (sl @ [min b (m - t)])"
    using step backoff_schedule_snoc[of m sl] by simp
  moreover have "b * 2 = 2 ^ length (sl @ [min b (m - t)])" using step by simp
  moreover have "t + b = 2 ^ length (sl @ [min b (m - t)]) - 1" using step by simp
  ultimately show ?case using step by (simp add: poll_loop_step)
qed

lemma backoff_schedule_length:
  assumes "backoff_schedule m sl" "0 \<le> m"
  shows "int (length sl) \<le> \<lceil>log 2 (real_of_int m + 1)\<rceil>"
proof (cases "length sl")
  case 0
  have "0 \<le> log 2 (real_of_int m + 1)" using assms(2) by simp
  then show ?thesis using 0 by simp
next
  case (Suc n)
  then have "(2::int) ^ n - 1 < m" using assms(1) by (simp add: backoff_schedule_def sum_pow2_int)
  then have "2 ^ n < nat m + 1"
    using assms(2) by (simp add: nat_less_iff nat_add_distrib flip: of_nat_less_iff [where 'a=int])
  then have "real n < log 2 (real (nat m + 1))"
    by (rule less_log2_of_power)
  then have "real n < log 2 (real_of_int m + 1)"
    using assms(2) by (simp add: add.commute)
  then have "int n < \<lceil>log 2 (real_of_int m + 1)\<rceil>"
    by (simp add: less_ceiling_iff)
  then show ?thesis using Suc by simp
qed

lemma poll_loop_total:
  assumes "0 < b"
  shows "\<exists>res. poll_loop c sid m b t st sl w = Some res"
  using assms
  by (induction b t st sl w rule: poll_loop_induct[where m=m and c=c and sid=sid])
     (simp_all add: poll_loop_stop poll_loop_raise_client poll_loop_raise_status poll_loop_step)

text \<open>The status the loop ends with is the one it started from (and then nothing was
  slept or fetched), or the one fetched by the last lookup.\<close>

lemma poll_loop_final_status:
  assumes "0 < b"
  shows "poll_loop c sid m b t st sl w = Some (Inr st', sl', w') \<Longrightarrow>
         (st' = st \<and> sl' = sl \<and> w' = w) \<or>
         (length sl < length sl' \<and>
          (\<exists>w0 fetched. get_statement c sid w0 = (Inr fetched, w') \<and> status fetched = st'))"
  using assms
proof (induction b t st sl w rule: poll_loop_induct[where m=m and c=c and sid=sid])
  case (stop b t st sl w)
  then show ?case by (simp add: poll_loop_stop)
next
  case (raise_client b t st sl w e w1)
  then show ?case by (simp add: poll_loop_raise_client)
next
  case (raise_status b t st sl w r e w1)
  then show ?case by (simp add: poll_loop_raise_status)
next
  case (step b t st sl w r w1)
  from step.prems step.hyps
  have run: "poll_loop c sid m (b * 2) (t + b) (status r) (sl @ [min b (m - t)]) w1
             = Some (Inr st', sl', w')"
    by (simp add: poll_loop_step)
  from step.IH[OF run] show ?case
  proof
    assume "st' = status r \<and> sl' = sl @ [min b (m - t)] \<and> w' = w1"
    then show ?thesis using step.hyps by auto
  next
    assume "length (sl @ [min b (m - t)]) < length sl' \<and>
      (\<exists>w0 fetched. get_statement c sid w0 = (Inr fetched, w') \<and> status fetched = st')"
    then show ?thesis by auto
  qed
qed

lemma poll_loop_zero_budget:
  "m \<le> t \<Longrightarrow> poll_loop c sid m b t st sl w = Some (Inr st, sl, w)"
  by (simp add: poll_loop_stop)

text \<open>A statement that every lookup within the wait budget reports as pending or
  running.\<close>

lemma poll_loop_pending_in_budget:
  assumes "0 < b"
  shows "b = 2 ^ n \<Longrightarrow> t = 2 ^ n - 1 \<Longrightarrow> state st \<in> {PENDING, RUNNING} \<Longrightarrow>
         (\<forall>k. (2::int) ^ (n + k) - 1 < m \<longrightarrow>
              (\<exists>r w'. nth_lookup c sid w k = (Inr r, w') \<and>
                       state (status r) \<in> {PENDING, RUNNING})) \<Longrightarrow>
         \<exists>st' sl' w'. poll_loop c sid m b t st sl w = Some (Inr st', sl', w') \<and>
                       state st' \<in> {PENDING, RUNNING}"
  using assms
proof (induction b t st sl w arbitrary: n rule: poll_loop_induct[where m=m and c=c and sid=sid])
  case (stop b t st sl w)
  then show ?case by (simp add: poll_loop_stop)
next
  case (raise_client b t st sl w e w1)
  from raise_client.prems(4) raise_client.prems(1,2) raise_client.hyps(2)
  have "\<exists>r w'. nth_lookup c sid w 0 = (Inr r, w') \<and> state (status r) \<in> {PENDING, RUNNING}"
    by (metis add.right_neutral)
  with raise_client.hyps show ?case by simp
next
  case (raise_status b t st sl w r e w1)
  from raise_status.prems(4) raise_status.prems(1,2) raise_status.hyps(2)
  have "\<exists>r w'. nth_lookup c sid w 0 = (Inr r, w') \<and> state (status r) \<in> {PENDING, RUNNING}"
    by (metis add.right_neutral)
  with raise_status.hyps show ?case by (auto simp: raise_if_error_def split: if_splits)
next
  case (step b t st sl w r w1)
  from step.prems(4) step.prems(1,2) step.hyps(2)
  have "\<exists>r w'. nth_lookup c sid w 0 = (Inr r, w') \<and> state (status r) \<in> {PENDING, RUNNING}"
    by (metis add.right_neutral)
  with step.hyps have pr: "state (status r) \<in> {PENDING, RUNNING}" by simp
  have b2: "b * 2 = 2 ^ Suc n" using step.prems(1) by simp
  have t2: "t + b = 2 ^ Suc n - 1" using step.prems(1,2) by simp
  have later: "\<forall>k. (2::int) ^ (Suc n + k) - 1 < m \<longrightarrow>
              (\<exists>r w'. nth_lookup c sid w1 k = (Inr r, w') \<and>
                       state (status r) \<in> {PENDING, RUNNING})"
  proof (intro allI impI)
    fix k
    assume "(2::int) ^ (Suc n + k) - 1 < m"
    then have "(2::int) ^ (n + Suc k) - 1 < m" by simp
    with step.prems(4)
    have "\<exists>r w'. nth_lookup c sid w (Suc k) = (Inr r, w') \<and> state (status r) \<in> {PENDING, RUNNING}"
      by blast
    then show "\<exists>r w'. nth_lookup c sid w1 k = (Inr r, w') \<and> state (status r) \<in> {PENDING, RUNNING}"
      using step.hyps(4) by simp
  qed
  from step.IH[OF b2 t2 pr later] show ?case using step.hyps by (simp add: poll_loop_step)
qed

lemma check_status_schedule:
  "\<exists>r slept w'. check_analyze_table_statement_status c response m w = Some (r, slept, w') \<and>
     backoff_schedule m slept"
proof -
  obtain r sl' w' where
    p: "poll_loop c (statement_id response) m 1 0 (status response) [] w = Some (r, sl', w')"
    and b: "backoff_schedule m sl'"
    using poll_loop_backoff[of 1 "[]" 0 m c "statement_id response" "status response" w]
    by (auto simp: backoff_schedule_Nil)
  then show ?thesis
    by (cases r) (auto simp: check_analyze_table_statement_status_def)
qed

section \<open>The extractor and the report\<close>

lemma get_int_result:
  "get_int c table_info field rep =
     (case properties table_info field of None \<Rightarrow> None | Some v \<Rightarrow> py_int c v,
      rep\<lparr>num_profile_failed_int_casts :=
            num_profile_failed_int_casts rep + (if unparseable c table_info field then 1 else 0)\<rparr>)"
  by (simp add: get_int_def unparseable_def split: option.splits)

lemma create_column_profile_report:
  "snd (create_column_profile c column table_info rep) =
     rep\<lparr>num_profile_failed_int_casts := num_profile_failed_int_casts rep +
       int (length (filter (unparseable c table_info)
         [''spark.sql.statistics.colStats.'' @ column @ ''.nullCount'',
          ''spark.sql.statistics.colStats.'' @ column @ ''.distinctCount'']))\<rparr>"
  by (simp add: create_column_profile_def get_int_result)

lemma create_column_profiles_report:
  "snd (create_column_profiles c cols table_info rep) =
     rep\<lparr>num_profile_failed_int_casts := num_profile_failed_int_casts rep +
       int (length (filter (unparseable c table_info)
         (concat (map (\<lambda>column.
             [''spark.sql.statistics.colStats.'' @ column @ ''.nullCount'',
              ''spark.sql.statistics.colStats.'' @ column @ ''.distinctCount'']) cols))))\<rparr>"
proof (induction cols arbitrary: rep)
  case Nil
  then show ?case by simp
next
  case (Cons column rest)
  obtain p rep1 where p: "create_column_profile c column table_info rep = (p, rep1)"
    by (cases "create_column_profile c column table_info rep")
  obtain ps rep2 where ps: "create_column_profiles c rest table_info rep1 = (ps, rep2)"
    by (cases "create_column_profiles c rest table_info rep1")
  have r1: "rep1 = snd (create_column_profile c column table_info rep)" using p by simp
  have r2: "rep2 = snd (create_column_profiles c rest table_info rep1)" using ps by simp
  show ?case
    unfolding create_column_profiles.simps p ps prod.case snd_conv
    unfolding r2 Cons.IH r1 create_column_profile_report
    by simp
qed

lemma create_table_profile_report:
  "snd (create_table_profile c table_info include_columns rep) =
     rep\<lparr>num_profile_failed_int_casts := num_profile_failed_int_casts rep +
       int (length (filter (unparseable c table_info) (numeric_keys table_info include_columns)))\<rparr>"
proof -
  obtain cps rep3 where cps:
    "create_column_profiles c (columns table_info) table_info
       (rep\<lparr>num_profile_failed_int_casts := num_profile_failed_int_casts rep
          + (if unparseable c table_info ''spark.sql.statistics.numRows'' then 1 else 0)
          + (if unparseable c table_info ''spark.sql.statistics.totalSize'' then 1 else 0)\<rparr>)
     = (cps, rep3)"
    by (cases "create_column_profiles c (columns table_info) table_info
       (rep\<lparr>num_profile_failed_int_casts := num_profile_failed_int_casts rep
          + (if unparseable c table_info ''spark.sql.statistics.numRows'' then 1 else 0)
          + (if unparseable c table_info ''spark.sql.statistics.totalSize'' then 1 else 0)\<rparr>)")
  from cps have "rep3 = snd (create_column_profiles c (columns table_info) table_info
       (rep\<lparr>num_profile_failed_int_casts := num_profile_failed_int_casts rep
          + (if unparseable c table_info ''spark.sql.statistics.numRows'' then 1 else 0)
          + (if unparseable c table_info ''spark.sql.statistics.totalSize'' then 1 else 0)\<rparr>))"
    by simp
  then have rep3: "rep3 = rep\<lparr>num_profile_failed_int_casts := num_profile_failed_int_casts rep
          + (if unparseable c table_info ''spark.sql.statistics.numRows'' then 1 else 0)
          + (if unparseable c table_info ''spark.sql.statistics.totalSize'' then 1 else 0)
          + int (length (filter (unparseable c table_info)
         (concat (map (\<lambda>column.
             [''spark.sql.statistics.colStats.'' @ column @ ''.nullCount'',
              ''spark.sql.statistics.colStats.'' @ column @ ''.distinctCount'']) (columns table_info)))))\<rparr>"
    by (simp add: create_column_profiles_report)
  show ?thesis
  proof (cases include_columns)
    case True
    then show ?thesis
      by (simp add: create_table_profile_def get_int_result cps rep3 numeric_keys_def Let_def)
  next
    case False
    then show ?thesis
      by (simp add: create_table_profile_def get_int_result numeric_keys_def Let_def)
  qed
qed

lemma create_table_profile_fields:
  "num_rows (fst (create_table_profile c table_info include_columns rep)) =
     (case properties table_info ''spark.sql.statistics.numRows'' of
        None \<Rightarrow> None | Some v \<Rightarrow> py_int c v)"
  "total_size (fst (create_table_profile c table_info include_columns rep)) =
     (case properties table_info ''spark.sql.statistics.totalSize'' of
        None \<Rightarrow> None | Some v \<Rightarrow> py_int c v)"
  "num_columns (fst (create_table_profile c table_info include_columns rep)) =
     length (columns table_info)"
  by (simp_all add: create_table_profile_def get_int_result Let_def split: prod.splits)

lemma get_table_profile_counter:
  "get_table_profile c ref include_columns rep w = (r, rep', w') \<Longrightarrow>
   num_profile_failed_unsupported_column_type rep' = num_profile_failed_unsupported_column_type rep \<and>
   profile_table_timeouts rep' = profile_table_timeouts rep \<and>
   profile_table_errors rep' = profile_table_errors rep"
proof -
  assume a: "get_table_profile c ref include_columns rep w = (r, rep', w')"
  obtain x w1 where t: "tables_get c (qualified_table_name ref) w = (x, w1)"
    by (cases "tables_get c (qualified_table_name ref) w")
  show ?thesis
  proof (cases x)
    case (Inl e)
    with a t show ?thesis by (simp add: get_table_profile_def)
  next
    case (Inr table_info)
    obtain p rep1 where p: "create_table_profile c table_info include_columns rep = (p, rep1)"
      by (cases "create_table_profile c table_info include_columns rep")
    then have "rep1 = snd (create_table_profile c table_info include_columns rep)" by simp
    then have r1: "rep1 = rep\<lparr>num_profile_failed_int_casts := num_profile_failed_int_casts rep +
       int (length (filter (unparseable c table_info) (numeric_keys table_info include_columns)))\<rparr>"
      by (simp only: create_table_profile_report)
    from a t Inr p have "rep' = rep1" by (simp add: get_table_profile_def)
    then show ?thesis by (simp add: r1)
  qed
qed

section \<open>The grouping key\<close>

lemma str_find_takeWhile:
  "str_find s x = (if x \<in> set s then int (length (takeWhile (\<lambda>y. y \<noteq> x) s)) else -1)"
  by (induction s) (auto simp: Let_def)

lemma take_through_first:
  "x \<in> set s \<Longrightarrow> take (Suc (length (takeWhile (\<lambda>y. y \<noteq> x) s))) s = takeWhile (\<lambda>y. y \<noteq> x) s @ [x]"
  by (induction s) auto

lemma base_msg_eq_spec: "base_msg msg = grouping_key_spec msg"
proof (cases "backtick \<in> set msg")
  case True
  then show ?thesis
    by (simp add: base_msg_def grouping_key_spec_def str_find_takeWhile py_or_def slice_to_def
                  nat_add_distrib take_through_first)
next
  case False
  show ?thesis
  proof (cases "single_quote \<in> set msg")
    case True
    with False show ?thesis
      by (simp add: base_msg_def grouping_key_spec_def str_find_takeWhile py_or_def slice_to_def
                    nat_add_distrib take_through_first)
  next
    case q: False
    with False show ?thesis
      by (simp add: base_msg_def grouping_key_spec_def str_find_takeWhile py_or_def slice_to_def)
  qed
qed

lemma record_error_samples:
  "profile_table_errors (record_error c ref msg rep) (base_msg msg) =
     Some (LossyList_append (lossy_capacity c) (errors_overflow c)
             (case profile_table_errors rep (base_msg msg) of None \<Rightarrow> [] | Some l \<Rightarrow> l)
             (ref_str ref, msg))"
  by (simp add: record_error_def Let_def)

lemma base_msg_table_abc: "base_msg ''Table `a.b.c` not found'' = ''Table `''"
  by code_simp

lemma base_msg_table_def: "base_msg ''Table `d.e.f` not found'' = ''Table `''"
  by code_simp

section \<open>The orchestrator\<close>

lemma check_status_total:
  "\<exists>r slept w'. check_analyze_table_statement_status c response m w = Some (r, slept, w')"
proof -
  obtain res where "poll_loop c (statement_id response) m 1 0 (status response) [] w = Some res"
    using poll_loop_total[of 1 c "statement_id response" m 0 "status response" "[]" w] by auto
  then show ?thesis
    by (cases res) (auto simp: check_analyze_table_statement_status_def split: sum.splits)
qed

lemma check_status_not_None [simp]:
  "check_analyze_table_statement_status c response m w \<noteq> None"
  using check_status_total[of c response m w] by auto

lemma try_total:
  "\<exists>r rep' w'. get_table_stats_try c ref m ca ic rep w = Some (r, rep', w')"
  by (auto simp: get_table_stats_try_def split: prod.splits sum.splits option.splits)

lemma try_frame:
  assumes "get_table_stats_try c ref m ca ic rep w = Some (r, rep', w')"
  shows "num_profile_failed_unsupported_column_type rep' =
           num_profile_failed_unsupported_column_type rep \<and>
         profile_table_errors rep' = profile_table_errors rep"
  using assms
  by (auto simp: get_table_stats_try_def
           split: prod.splits sum.splits option.splits if_splits
           dest: get_table_profile_counter)


lemma record_error_frame [simp]:
  "num_profile_failed_unsupported_column_type (record_error c ref msg rep) =
     num_profile_failed_unsupported_column_type rep"
  by (simp add: record_error_def Let_def)

lemma get_table_stats_no_columns:
  "get_table_stats c ref m ca False rep w =
     (case get_table_stats_try c ref m ca False rep w of
        None \<Rightarrow> None
      | Some (Inr r, rep1, w1) \<Rightarrow> Some (Inr r, rep1, w1)
      | Some (Inl (OtherException x), rep1, w1) \<Rightarrow> Some (Inl (OtherException x), rep1, w1)
      | Some (Inl (Databricks e), rep1, w1) \<Rightarrow>
          Some (Inr None, record_error c ref (err_msg e) rep1, w1))"
  by (subst get_table_stats.simps)
     (simp add: Let_def split: option.splits prod.splits sum.splits exn.splits)

lemma get_table_stats_returned:
  "get_table_stats_try c ref m ca ic rep w = Some (Inr r, rep1, w1) \<Longrightarrow>
   get_table_stats c ref m ca ic rep w = Some (Inr r, rep1, w1)"
  by (subst get_table_stats.simps) simp


lemma get_table_stats_caught:
  "get_table_stats_try c ref m ca ic rep w = Some (Inl (Databricks e), rep1, w1) \<Longrightarrow>
   get_table_stats c ref m ca ic rep w =
     (if ca \<and> ic \<and> sublist unsupported_column_token (err_msg e)
      then get_table_stats c ref m ca False
             ((record_error c ref (err_msg e) rep1)
                \<lparr>num_profile_failed_unsupported_column_type :=
                   num_profile_failed_unsupported_column_type rep1 + 1\<rparr>) w1
      else Some (Inr None, record_error c ref (err_msg e) rep1, w1))"
  by (subst get_table_stats.simps)
     (simp add: Let_def should_retry_unsupported_column_def)

text \<open>A call without columns: one attempt, no recursion, no DatabricksError out, the
  unsupported-column counter untouched.\<close>

lemma no_columns_result:
  "\<exists>r rep' w'. get_table_stats c ref m ca False rep w = Some (r, rep', w') \<and>
     (\<forall>e. r \<noteq> Inl (Databricks e)) \<and>
     num_profile_failed_unsupported_column_type rep' =
       num_profile_failed_unsupported_column_type rep"
proof -
  obtain r rep1 w1 where t: "get_table_stats_try c ref m ca False rep w = Some (r, rep1, w1)"
    using try_total[of c ref m ca False rep w] by auto
  note f = try_frame[OF t]
  show ?thesis
  proof (cases r)
    case (Inr p)
    with t f show ?thesis by (simp add: get_table_stats_no_columns)
  next
    case (Inl x)
    then show ?thesis using t f by (cases x) (simp_all add: get_table_stats_no_columns)
  qed
qed



section \<open>The sample workspace, evaluated\<close>

lemma token_in_sample_error: "sublist unsupported_column_token (err_msg sample_error)"
  by code_simp

lemma sample_analyze_columns:
  "analyze_table sample_env sample_ref True w = (Inl (Databricks sample_error), 0)"
  by (simp add: analyze_table_def sample_env_def sample_ref_def raise_if_error_def status_of_def
                sample_error_def sublist_code)

lemma sample_analyze_plain:
  "analyze_table sample_env sample_ref False w = (Inr submitted, 0)"
  by (simp add: analyze_table_def sample_env_def sample_ref_def raise_if_error_def status_of_def
                submitted_def sublist_code)

lemma sample_check_5:
  "check_analyze_table_statement_status sample_env submitted 5 0 = Some (Inr True, [1, 2, 2], 3)"
  by code_simp

lemma sample_check_2:
  "check_analyze_table_statement_status sample_env submitted 2 0 = Some (Inr False, [1, 1], 2)"
  by code_simp

lemma stuck_check_5:
  "check_analyze_table_statement_status stuck_env submitted 5 0 = Some (Inr False, [1, 2, 2], 3)"
  by code_simp

lemma sample_try_columns:
  "get_table_stats_try sample_env sample_ref m True True rep w =
     Some (Inl (Databricks sample_error), rep, 0)"
  by (simp add: get_table_stats_try_def sample_analyze_columns)

lemma broken_try:
  "get_table_stats_try broken_env sample_ref m False True rep w =
     Some (Inl (Databricks sample_error), rep, w)"
  by (simp add: get_table_stats_try_def get_table_profile_def broken_env_def)

lemma sample_run:
  "case get_table_stats sample_env sample_ref 5 True True empty_report 7 of
     Some (Inr (Some p), rep', w') \<Rightarrow>
       p = sample_profile \<and> w' = 3 \<and>
       num_profile_failed_unsupported_column_type rep' = 1 \<and>
       profile_table_timeouts rep' = [] \<and>
       profile_table_errors rep' (base_msg unsupported_msg)
         = Some [(ref_str sample_ref, unsupported_msg)]
   | _ \<Rightarrow> False"
  by code_simp

section \<open>The claims\<close>

subsection \<open>C1: a profile only after success\<close>



subsection \<open>C2: no remote error leaves the call\<close>



subsection \<open>C3: one retry without columns\<close>

text \<open>
  Claim C3. If the attempt with \<open>call_analyze\<close> and \<open>include_columns\<close> both true
  raises a remote error whose message contains the unsupported-column token, the call is
  the call again with \<open>include_columns\<close> false, on the report with the error recorded
  and the counter raised by one. That second call is a single attempt: it returns, no
  remote error leaves it, a remote error in it ends in absence with no further call, and
  the counter ends exactly one above where the first call found it.
\<close>

theorem unsupported_column_retry_once:
  assumes "get_table_stats_try c ref m True True rep w = Some (Inl (Databricks e), rep1, w1)"
    and "sublist unsupported_column_token (err_msg e)"
  shows "get_table_stats c ref m True True rep w =
           get_table_stats c ref m True False
             ((record_error c ref (err_msg e) rep1)
                \<lparr>num_profile_failed_unsupported_column_type :=
                   num_profile_failed_unsupported_column_type rep1 + 1\<rparr>) w1 \<and>
         get_table_stats c ref m True False
             ((record_error c ref (err_msg e) rep1)
                \<lparr>num_profile_failed_unsupported_column_type :=
                   num_profile_failed_unsupported_column_type rep1 + 1\<rparr>) w1 =
           (case get_table_stats_try c ref m True False
                   ((record_error c ref (err_msg e) rep1)
                      \<lparr>num_profile_failed_unsupported_column_type :=
                         num_profile_failed_unsupported_column_type rep1 + 1\<rparr>) w1 of
              None \<Rightarrow> None
            | Some (Inr r, rep3, w3) \<Rightarrow> Some (Inr r, rep3, w3)
            | Some (Inl (OtherException x), rep3, w3) \<Rightarrow> Some (Inl (OtherException x), rep3, w3)
            | Some (Inl (Databricks e2), rep3, w3) \<Rightarrow>
                Some (Inr None, record_error c ref (err_msg e2) rep3, w3)) \<and>
         (\<exists>r rep' w'. get_table_stats c ref m True True rep w = Some (r, rep', w') \<and>
            (\<forall>e'. r \<noteq> Inl (Databricks e')) \<and>
            num_profile_failed_unsupported_column_type rep' =
              num_profile_failed_unsupported_column_type rep + 1)"
proof -
  let ?rep2 = "(record_error c ref (err_msg e) rep1)
                \<lparr>num_profile_failed_unsupported_column_type :=
                   num_profile_failed_unsupported_column_type rep1 + 1\<rparr>"
  have eq: "get_table_stats c ref m True True rep w = get_table_stats c ref m True False ?rep2 w1"
    using get_table_stats_caught[OF assms(1)] assms(2) by simp
  have single: "get_table_stats c ref m True False ?rep2 w1 =
           (case get_table_stats_try c ref m True False ?rep2 w1 of
              None \<Rightarrow> None
            | Some (Inr r, rep3, w3) \<Rightarrow> Some (Inr r, rep3, w3)
            | Some (Inl (OtherException x), rep3, w3) \<Rightarrow> Some (Inl (OtherException x), rep3, w3)
            | Some (Inl (Databricks e2), rep3, w3) \<Rightarrow>
                Some (Inr None, record_error c ref (err_msg e2) rep3, w3))"
    by (rule get_table_stats_no_columns)
  have c1: "num_profile_failed_unsupported_column_type rep1 =
            num_profile_failed_unsupported_column_type rep"
    using try_frame[OF assms(1)] by simp
  obtain r rep' w' where res: "get_table_stats c ref m True False ?rep2 w1 = Some (r, rep', w')"
      and nodb: "\<forall>e'. r \<noteq> Inl (Databricks e')"
      and cnt: "num_profile_failed_unsupported_column_type rep' =
                num_profile_failed_unsupported_column_type ?rep2"
    using no_columns_result[of c ref m True ?rep2 w1] by blast
  have "num_profile_failed_unsupported_column_type rep' =
        num_profile_failed_unsupported_column_type rep + 1"
    using cnt c1 by simp
  with res nodb eq have "\<exists>r rep' w'. get_table_stats c ref m True True rep w = Some (r, rep', w') \<and>
            (\<forall>e'. r \<noteq> Inl (Databricks e')) \<and>
            num_profile_failed_unsupported_column_type rep' =
              num_profile_failed_unsupported_column_type rep + 1"
    by simp
  with eq single show ?thesis by blast
qed

theorem unsupported_column_retry_once_witness:
  "get_table_stats_try sample_env sample_ref 5 True True empty_report 7
     = Some (Inl (Databricks sample_error), empty_report, 0) \<and>
   sublist unsupported_column_token (err_msg sample_error) \<and>
   (\<exists>rep' w'. get_table_stats sample_env sample_ref 5 True True empty_report 7
                 = Some (Inr (Some sample_profile), rep', w') \<and>
               num_profile_failed_unsupported_column_type rep' = 1)"
proof -
  have t: "get_table_stats_try sample_env sample_ref 5 True True empty_report 7
             = Some (Inl (Databricks sample_error), empty_report, 0)"
    by (rule sample_try_columns)
  have z: "num_profile_failed_unsupported_column_type empty_report = 0"
    by (simp add: empty_report_def)
  obtain r rep' w' where g: "get_table_stats sample_env sample_ref 5 True True empty_report 7
                              = Some (r, rep', w')"
    and n: "num_profile_failed_unsupported_column_type rep' =
              num_profile_failed_unsupported_column_type empty_report + 1"
    using unsupported_column_retry_once[OF t token_in_sample_error] by blast
  from sample_run g have "r = Inr (Some sample_profile)"
    by (cases r) (auto split: option.splits)
  with g n z t token_in_sample_error show ?thesis by simp
qed

subsection \<open>C9: the counter without both flags\<close>

text \<open>
  Claim C9. If the attempt raises a remote error whose message contains the
  unsupported-column token while \<open>call_analyze\<close> or \<open>include_columns\<close> is false, the
  call records the error and returns absence, and the unsupported-column counter of the
  report is what it was before the call: the classifier is not run.
\<close>

theorem counter_needs_both_flags:
  assumes "get_table_stats_try c ref m ca ic rep w = Some (Inl (Databricks e), rep1, w1)"
    and "sublist unsupported_column_token (err_msg e)"
    and "\<not> ca \<or> \<not> ic"
  shows "get_table_stats c ref m ca ic rep w =
           Some (Inr None, record_error c ref (err_msg e) rep1, w1) \<and>
         num_profile_failed_unsupported_column_type (record_error c ref (err_msg e) rep1) =
           num_profile_failed_unsupported_column_type rep"
proof -
  have "get_table_stats c ref m ca ic rep w =
          Some (Inr None, record_error c ref (err_msg e) rep1, w1)"
    using get_table_stats_caught[OF assms(1)] assms(3) by auto
  moreover have "num_profile_failed_unsupported_column_type rep1 =
                 num_profile_failed_unsupported_column_type rep"
    using try_frame[OF assms(1)] by simp
  ultimately show ?thesis by simp
qed

theorem counter_needs_both_flags_witness:
  "get_table_stats_try broken_env sample_ref 5 False True empty_report 7
     = Some (Inl (Databricks sample_error), empty_report, 7) \<and>
   sublist unsupported_column_token (err_msg sample_error) \<and>
   get_table_stats broken_env sample_ref 5 False True empty_report 7
     = Some (Inr None, record_error broken_env sample_ref (err_msg sample_error) empty_report, 7) \<and>
   num_profile_failed_unsupported_column_type
     (record_error broken_env sample_ref (err_msg sample_error) empty_report) = 0"
proof -
  have t: "get_table_stats_try broken_env sample_ref 5 False True empty_report 7
             = Some (Inl (Databricks sample_error), empty_report, 7)"
    by (rule broken_try)
  have f: "\<not> False \<or> \<not> True" by simp
  have z: "num_profile_failed_unsupported_column_type empty_report = 0"
    by (simp add: empty_report_def)
  show ?thesis
    using t token_in_sample_error counter_needs_both_flags[OF t token_in_sample_error f]
    by (simp add: z)
qed

subsection \<open>C4: the backoff schedule and the number of iterations\<close>

text \<open>
  Claim C4. For every \<open>max_wait_secs \<ge> 0\<close> the poller returns or raises (it does not
  run forever), the sleeps it made are \<open>1, 2, 4, 8, \<dots>\<close>, each capped by
  \<open>max_wait_secs\<close> minus the sum of the backoffs scheduled before it (the scheduled
  sum, not the time slept), and the number of iterations, one sleep each, is at most
  \<open>\<lceil>log\<^sub>2 (max_wait_secs + 1)\<rceil> + 1\<close>.
\<close>

theorem poller_backoff_bounded:
  assumes "0 \<le> max_wait_secs"
  shows "\<exists>r slept w'.
           check_analyze_table_statement_status c response max_wait_secs w = Some (r, slept, w') \<and>
           (\<forall>k < length slept.
              slept ! k = min (2 ^ k) (max_wait_secs - (\<Sum>j<k. 2 ^ j))) \<and>
           int (length slept) \<le> \<lceil>log 2 (real_of_int max_wait_secs + 1)\<rceil> + 1"
proof -
  obtain r slept w' where
    res: "check_analyze_table_statement_status c response max_wait_secs w = Some (r, slept, w')"
    and sch: "backoff_schedule max_wait_secs slept"
    using check_status_schedule[of c response max_wait_secs w] by blast
  have "\<forall>k < length slept. slept ! k = min (2 ^ k) (max_wait_secs - (\<Sum>j<k. 2 ^ j))"
    using sch by (simp add: backoff_schedule_def)
  moreover have "int (length slept) \<le> \<lceil>log 2 (real_of_int max_wait_secs + 1)\<rceil> + 1"
    using backoff_schedule_length[OF sch assms] by simp
  ultimately show ?thesis using res by blast
qed

theorem poller_backoff_bounded_witness:
  "(0::int) \<le> 5 \<and>
   check_analyze_table_statement_status stuck_env submitted 5 0 = Some (Inr False, [1, 2, 2], 3) \<and>
   [1, 2, 2 :: int] ! 0 = min (2 ^ 0) (5 - (\<Sum>j<0. 2 ^ j)) \<and>
   [1, 2, 2 :: int] ! 1 = min (2 ^ 1) (5 - (\<Sum>j<1. 2 ^ j)) \<and>
   [1, 2, 2 :: int] ! 2 = min (2 ^ 2) (5 - (\<Sum>j<2. 2 ^ j)) \<and>
   int (length [1, 2, 2 :: int]) \<le> \<lceil>log 2 (real_of_int 5 + 1)\<rceil> + 1"
proof -
  have h: "(0::int) \<le> 5" by simp
  from poller_backoff_bounded[OF h, of stuck_env submitted 0]
  have "(\<forall>k < length [1, 2, 2 :: int].
           [1, 2, 2 :: int] ! k = min (2 ^ k) (5 - (\<Sum>j<k. 2 ^ j))) \<and>
        int (length [1, 2, 2 :: int]) \<le> \<lceil>log 2 (real_of_int 5 + 1)\<rceil> + 1"
    by (simp add: stuck_check_5)
  then show ?thesis by (simp add: stuck_check_5 lessThan_Suc numeral_2_eq_2)
qed

subsection \<open>C5: a statement that stays pending within the budget\<close>

text \<open>
  Claim C5. If the submitted statement is pending or running and every status lookup
  within the wait budget (lookup \<open>k\<close> of the run, for every \<open>k\<close> whose \<open>k\<close>
  earlier scheduled backoffs sum to less than \<open>max_wait_secs\<close>) reports it pending
  or running, then the poller returns false, raising nothing, and \<open>get_table_stats\<close>
  appends the table reference to the report's timeout list (through the bounded list's
  append) and returns absence, raising nothing. What the statement would report after the
  budget plays no part: the sample statement below succeeds at its third lookup, and with
  a budget of 2 the call still times out.
\<close>

theorem timeout_recorded_not_raised:
  assumes "analyze_table c ref ic w = (Inr response, w1)"
    and "state (status response) \<in> {PENDING, RUNNING}"
    and "\<forall>k. (\<Sum>j<k. (2::int) ^ j) < m \<longrightarrow>
              (\<exists>r w'. nth_lookup c (statement_id response) w1 k = (Inr r, w') \<and>
                       state (status r) \<in> {PENDING, RUNNING})"
  shows "\<exists>slept w2.
           check_analyze_table_statement_status c response m w1 = Some (Inr False, slept, w2) \<and>
           get_table_stats c ref m True ic rep w =
             Some (Inr None,
                   rep\<lparr>profile_table_timeouts :=
                         LossyList_append (lossy_capacity c) (timeouts_overflow c)
                           (profile_table_timeouts rep) (ref_str ref)\<rparr>,
                   w2)"
proof -
  have pos: "(0::int) < 1" by simp
  have b0: "(1::int) = 2 ^ 0" and t0: "(0::int) = 2 ^ 0 - 1" by simp_all
  have budget: "\<forall>k. (2::int) ^ (0 + k) - 1 < m \<longrightarrow>
              (\<exists>r w'. nth_lookup c (statement_id response) w1 k = (Inr r, w') \<and>
                       state (status r) \<in> {PENDING, RUNNING})"
    using assms(3) by (simp add: sum_pow2_int)
  obtain st' sl' w2 where
    p: "poll_loop c (statement_id response) m 1 0 (status response) [] w1 = Some (Inr st', sl', w2)"
    and s: "state st' \<in> {PENDING, RUNNING}"
    using poll_loop_pending_in_budget[OF pos b0 t0 assms(2) budget, of "[]"]
    by blast
  have chk: "check_analyze_table_statement_status c response m w1 = Some (Inr False, sl', w2)"
    using p s by (auto simp: check_analyze_table_statement_status_def)
  have "get_table_stats_try c ref m True ic rep w =
          Some (Inr None,
                rep\<lparr>profile_table_timeouts :=
                      LossyList_append (lossy_capacity c) (timeouts_overflow c)
                        (profile_table_timeouts rep) (ref_str ref)\<rparr>,
                w2)"
    by (simp add: get_table_stats_try_def assms(1) chk)
  then have "get_table_stats c ref m True ic rep w =
          Some (Inr None,
                rep\<lparr>profile_table_timeouts :=
                      LossyList_append (lossy_capacity c) (timeouts_overflow c)
                        (profile_table_timeouts rep) (ref_str ref)\<rparr>,
                w2)"
    by (rule get_table_stats_returned)
  with chk show ?thesis by blast
qed

theorem timeout_recorded_not_raised_witness:
  "analyze_table sample_env sample_ref False 7 = (Inr submitted, 0) \<and>
   state (status submitted) \<in> {PENDING, RUNNING} \<and>
   nth_lookup sample_env (statement_id submitted) 0 0
     = (Inr \<lparr>statement_id = ''stmt'', status = status_of RUNNING\<rparr>, 1) \<and>
   nth_lookup sample_env (statement_id submitted) 0 1
     = (Inr \<lparr>statement_id = ''stmt'', status = status_of RUNNING\<rparr>, 2) \<and>
   nth_lookup sample_env (statement_id submitted) 0 2
     = (Inr \<lparr>statement_id = ''stmt'', status = status_of SUCCEEDED\<rparr>, 3) \<and>
   check_analyze_table_statement_status sample_env submitted 2 0 = Some (Inr False, [1, 1], 2) \<and>
   get_table_stats sample_env sample_ref 2 True False empty_report 7 =
     Some (Inr None, empty_report\<lparr>profile_table_timeouts := [ref_str sample_ref]\<rparr>, 2)"
proof -
  have a: "analyze_table sample_env sample_ref False 7 = (Inr submitted, 0)"
    by (rule sample_analyze_plain)
  have b: "state (status submitted) \<in> {PENDING, RUNNING}"
    by (simp add: submitted_def status_of_def)
  have l0: "nth_lookup sample_env (statement_id submitted) 0 0
     = (Inr \<lparr>statement_id = ''stmt'', status = status_of RUNNING\<rparr>, 1)"
    by (simp add: sample_env_def submitted_def)
  have l1: "nth_lookup sample_env (statement_id submitted) 0 1
     = (Inr \<lparr>statement_id = ''stmt'', status = status_of RUNNING\<rparr>, 2)"
    by (simp add: sample_env_def submitted_def)
  have l2: "nth_lookup sample_env (statement_id submitted) 0 2
     = (Inr \<lparr>statement_id = ''stmt'', status = status_of SUCCEEDED\<rparr>, 3)"
    by (simp add: sample_env_def submitted_def numeral_2_eq_2)
  have c: "\<forall>k. (\<Sum>j<k. (2::int) ^ j) < 2 \<longrightarrow>
              (\<exists>r w'. nth_lookup sample_env (statement_id submitted) 0 k = (Inr r, w') \<and>
                       state (status r) \<in> {PENDING, RUNNING})"
  proof (intro allI impI)
    fix k :: nat
    assume "(\<Sum>j<k. (2::int) ^ j) < 2"
    then have small: "(2::int) ^ k < 3" by (simp add: sum_pow2_int)
    have "k < 2"
    proof (rule ccontr)
      assume "\<not> k < 2"
      then have "(2::int) ^ 2 \<le> 2 ^ k" by (intro power_increasing) simp_all
      with small show False by simp
    qed
    then have "k = 0 \<or> k = 1" by auto
    then show "\<exists>r w'. nth_lookup sample_env (statement_id submitted) 0 k = (Inr r, w') \<and>
                       state (status r) \<in> {PENDING, RUNNING}"
      using l0 l1 by (auto simp: status_of_def)
  qed
  have l: "LossyList_append (lossy_capacity sample_env) (timeouts_overflow sample_env)
             (profile_table_timeouts empty_report) (ref_str sample_ref) = [ref_str sample_ref]"
    by (simp add: LossyList_append_def sample_env_def empty_report_def)
  from timeout_recorded_not_raised[OF a b c, of empty_report]
  show ?thesis using a b l0 l1 l2 by (simp add: sample_check_2 l)
qed

subsection \<open>C6: at least one status check\<close>

text \<open>
  Claim C6. For every \<open>max_wait_secs \<ge> 0\<close> the poller returns or raises, and a
  boolean it returns is the comparison with \<^verbatim>\<open>SUCCEEDED\<close> of a status it has in
  hand: the initial status when it slept and fetched nothing, otherwise the status of its
  last lookup. With \<open>max_wait_secs = 0\<close> it is the first case: no sleep, no lookup, and
  the result is the check of the initial status.
\<close>

theorem poller_checks_status:
  assumes "0 \<le> max_wait_secs"
  shows "\<exists>r slept w'.
           check_analyze_table_statement_status c response max_wait_secs w = Some (r, slept, w') \<and>
           (max_wait_secs = 0 \<longrightarrow>
              r = Inr (state (status response) = SUCCEEDED) \<and> slept = [] \<and> w' = w) \<and>
           (\<forall>b. r = Inr b \<longrightarrow>
              (slept = [] \<and> w' = w \<and> b = (state (status response) = SUCCEEDED)) \<or>
              (slept \<noteq> [] \<and>
               (\<exists>w0 fetched. get_statement c (statement_id response) w0 = (Inr fetched, w') \<and>
                              b = (state (status fetched) = SUCCEEDED))))"
proof -
  have pos: "(0::int) < 1" by simp
  obtain res where
    p: "poll_loop c (statement_id response) max_wait_secs 1 0 (status response) [] w = Some res"
    using poll_loop_total[OF pos, of c "statement_id response" max_wait_secs 0 "status response" "[]" w]
    by blast
  obtain x slept w' where res: "res = (x, slept, w')" by (cases res)
  show ?thesis
  proof (cases x)
    case (Inl e)
    have chk: "check_analyze_table_statement_status c response max_wait_secs w
               = Some (Inl e, slept, w')"
      using p res Inl by (simp add: check_analyze_table_statement_status_def)
    have "max_wait_secs = 0 \<longrightarrow> False"
      using p res Inl by (auto simp: poll_loop_zero_budget)
    with chk show ?thesis by auto
  next
    case (Inr st')
    have chk: "check_analyze_table_statement_status c response max_wait_secs w
               = Some (Inr (state st' = SUCCEEDED), slept, w')"
      using p res Inr by (simp add: check_analyze_table_statement_status_def)
    have fin: "(st' = status response \<and> slept = [] \<and> w' = w) \<or>
         (length ([]::int list) < length slept \<and>
          (\<exists>w0 fetched. get_statement c (statement_id response) w0 = (Inr fetched, w') \<and>
                         status fetched = st'))"
      using poll_loop_final_status[OF pos, of c "statement_id response" max_wait_secs 0
              "status response" "[]" w st' slept w'] p res Inr
      by simp
    have zero: "max_wait_secs = 0 \<longrightarrow> st' = status response \<and> slept = [] \<and> w' = w"
      using p res Inr by (auto simp: poll_loop_zero_budget)
    from chk fin zero show ?thesis by auto
  qed
qed

theorem poller_checks_status_witness:
  "(0::int) \<le> 0 \<and>
   check_analyze_table_statement_status sample_env submitted 0 7 = Some (Inr False, [], 7) \<and>
   state (status submitted) \<noteq> SUCCEEDED"
proof -
  have h: "(0::int) \<le> 0" by simp
  have s: "state (status submitted) \<noteq> SUCCEEDED" by (simp add: submitted_def status_of_def)
  from poller_checks_status[OF h, of sample_env submitted 7]
  show ?thesis using s by auto
qed

subsection \<open>C7: the grouping key of a remote error\<close>

text \<open>
  Claim C7. For every remote-error message the grouping key computed by the handler
  (\<open>base_msg\<close>, from \<^verbatim>\<open>find\<close>, \<^verbatim>\<open>or\<close> and the slice) is the message up to and
  including its first backtick, or failing that up to and including its first single
  quote, or else the whole message. In particular the two table-not-found messages get the
  same key \<^verbatim>\<open>Table `\<close>, and recording both keeps both full messages, in order, under
  that key, provided the bounded sample list still has room for two entries (its capacity
  belongs to \<^verbatim>\<open>LossyList\<close>, which is a parameter here).
\<close>

theorem grouping_key_by_prefix:
  "base_msg msg = grouping_key_spec msg \<and>
   base_msg ''Table `a.b.c` not found'' = ''Table `'' \<and>
   base_msg ''Table `d.e.f` not found'' = ''Table `'' \<and>
   (length (case profile_table_errors rep ''Table `'' of None \<Rightarrow> [] | Some l \<Rightarrow> l) + 2
      \<le> lossy_capacity c \<longrightarrow>
      profile_table_errors
        (record_error c ref2 ''Table `d.e.f` not found''
           (record_error c ref1 ''Table `a.b.c` not found'' rep)) ''Table `''
      = Some ((case profile_table_errors rep ''Table `'' of None \<Rightarrow> [] | Some l \<Rightarrow> l) @
              [(ref_str ref1, ''Table `a.b.c` not found''),
               (ref_str ref2, ''Table `d.e.f` not found'')]))"
proof (intro conjI impI)
  show "base_msg msg = grouping_key_spec msg" by (rule base_msg_eq_spec)
  show "base_msg ''Table `a.b.c` not found'' = ''Table `''" by (rule base_msg_table_abc)
  show "base_msg ''Table `d.e.f` not found'' = ''Table `''" by (rule base_msg_table_def)
next
  let ?old = "case profile_table_errors rep ''Table `'' of None \<Rightarrow> [] | Some l \<Rightarrow> l"
  assume a: "length ?old + 2 \<le> lossy_capacity c"
  have 1: "profile_table_errors (record_error c ref1 ''Table `a.b.c` not found'' rep) ''Table `''
           = Some (?old @ [(ref_str ref1, ''Table `a.b.c` not found'')])"
    using a record_error_samples[of c ref1 "''Table `a.b.c` not found''" rep]
    by (simp only: base_msg_table_abc) (simp add: LossyList_append_def)
  show "profile_table_errors
        (record_error c ref2 ''Table `d.e.f` not found''
           (record_error c ref1 ''Table `a.b.c` not found'' rep)) ''Table `''
      = Some (?old @ [(ref_str ref1, ''Table `a.b.c` not found''),
                      (ref_str ref2, ''Table `d.e.f` not found'')])"
    using a record_error_samples[of c ref2 "''Table `d.e.f` not found''"
             "record_error c ref1 ''Table `a.b.c` not found'' rep"]
    by (simp only: base_msg_table_def 1) (simp add: LossyList_append_def)
qed

theorem grouping_key_by_prefix_witness:
  "length (case profile_table_errors empty_report ''Table `'' of None \<Rightarrow> [] | Some l \<Rightarrow> l) + 2
     \<le> lossy_capacity sample_env \<and>
   profile_table_errors
        (record_error sample_env sample_ref ''Table `d.e.f` not found''
           (record_error sample_env sample_ref ''Table `a.b.c` not found'' empty_report)) ''Table `''
      = Some [(ref_str sample_ref, ''Table `a.b.c` not found''),
              (ref_str sample_ref, ''Table `d.e.f` not found'')]"
proof -
  have e: "profile_table_errors empty_report ''Table `'' = None"
    by (simp add: empty_report_def)
  have h: "length (case profile_table_errors empty_report ''Table `'' of None \<Rightarrow> [] | Some l \<Rightarrow> l) + 2
             \<le> lossy_capacity sample_env"
    by (simp add: sample_env_def empty_report_def)
  show ?thesis
    using h grouping_key_by_prefix[of "[]" empty_report sample_env sample_ref sample_ref]
    by (simp add: e)
qed

subsection \<open>C8: a value that is not an integer\<close>

text \<open>
  Claim C8. When a numeric statistics key holds a value that \<^verbatim>\<open>int\<close> rejects,
  \<open>get_int\<close> returns absence and adds exactly one to the parse-failure counter, and
  nothing is raised (the result is an ordinary value). In the extractor the row-count and
  total-size fields read that way are absent, and the counter grows by exactly the number
  of numeric keys read whose value is present and rejected, one per field.
\<close>

theorem unparseable_value_dropped_and_counted:
  assumes "properties table_info field = Some v" and "py_int c v = None"
  shows "get_int c table_info field rep =
           (None, rep\<lparr>num_profile_failed_int_casts := num_profile_failed_int_casts rep + 1\<rparr>) \<and>
         (field = ''spark.sql.statistics.numRows'' \<longrightarrow>
            num_rows (fst (create_table_profile c table_info include_columns rep)) = None) \<and>
         (field = ''spark.sql.statistics.totalSize'' \<longrightarrow>
            total_size (fst (create_table_profile c table_info include_columns rep)) = None) \<and>
         num_profile_failed_int_casts (snd (create_table_profile c table_info include_columns rep)) =
           num_profile_failed_int_casts rep +
           int (length (filter (unparseable c table_info) (numeric_keys table_info include_columns)))"
  using assms
  by (auto simp: get_int_def create_table_profile_fields create_table_profile_report)

theorem unparseable_value_dropped_and_counted_witness:
  "properties sample_table ''spark.sql.statistics.totalSize'' = Some ''not-a-number'' \<and>
   py_int sample_env ''not-a-number'' = None \<and>
   get_int sample_env sample_table ''spark.sql.statistics.totalSize'' empty_report =
     (None, empty_report\<lparr>num_profile_failed_int_casts := 1\<rparr>) \<and>
   total_size (fst (create_table_profile sample_env sample_table True empty_report)) = None \<and>
   num_profile_failed_int_casts (snd (create_table_profile sample_env sample_table True empty_report)) = 1"
proof -
  have p: "properties sample_table ''spark.sql.statistics.totalSize'' = Some ''not-a-number''"
    by (simp add: sample_table_def)
  have q: "py_int sample_env ''not-a-number'' = None"
    by (simp add: sample_env_def ascii_digits_int_def)
  have n: "filter (unparseable sample_env sample_table) (numeric_keys sample_table True)
           = [''spark.sql.statistics.totalSize'']"
    by code_simp
  have z: "num_profile_failed_int_casts empty_report = 0" by (simp add: empty_report_def)
  show ?thesis
    using p q unparseable_value_dropped_and_counted[OF p q, of empty_report True]
    by (simp add: n z)
qed

subsection \<open>C10: a key that is absent\<close>

text \<open>
  Claim C10. When a numeric statistics key is absent from the property bag, \<open>get_int\<close>
  returns absence and leaves the report as it was; the parse-failure counter changes only
  when the value is present and \<^verbatim>\<open>int\<close> rejects it.
\<close>

theorem absent_key_not_counted:
  "(properties table_info field = None \<longrightarrow> get_int c table_info field rep = (None, rep)) \<and>
   (num_profile_failed_int_casts (snd (get_int c table_info field rep))
      \<noteq> num_profile_failed_int_casts rep
    \<longleftrightarrow> (\<exists>v. properties table_info field = Some v \<and> py_int c v = None))"
  by (auto simp: get_int_def split: option.splits)

theorem absent_key_not_counted_witness:
  "properties sample_table ''spark.sql.statistics.colStats.tags.nullCount'' = None \<and>
   get_int sample_env sample_table ''spark.sql.statistics.colStats.tags.nullCount'' empty_report
     = (None, empty_report)"
proof -
  have p: "properties sample_table ''spark.sql.statistics.colStats.tags.nullCount'' = None"
    by (simp add: sample_table_def)
  show ?thesis
    using p absent_key_not_counted[of sample_table
            "''spark.sql.statistics.colStats.tags.nullCount''" sample_env empty_report]
    by simp
qed

end
